theory Spec2Isabelle
  imports Main
begin

text \<open>
  A model of \<^verbatim>\<open>main.py\<close>: the task registry, the parser of task descriptions, the
  dispatch in \<^verbatim>\<open>execute\<close>, the weekday count, and the two endpoints. Exceptions are values
  of a sum type, the file system and the registry are passed explicitly, and everything
  outside the program (the model service, the JSON decoder, the environment, the other
  file transformers) is a parameter.
\<close>

section \<open>Python values and exceptions\<close>

text \<open>
  Strings are ASCII byte lists. Every exception class that \<^verbatim>\<open>main.py\<close> raises, catches or
  lets through is a constructor; the argument is the message, except for \<open>KeyError\<close>, whose
  argument is the \<^verbatim>\<open>repr\<close> of the missing key, and \<open>HTTPError\<close>, whose argument is
  \<^verbatim>\<open>e.response.text\<close> (the only part of it that the program reads).
  \<open>RequestException\<close> stands for the exceptions of \<^verbatim>\<open>requests\<close> other than \<open>HTTPError\<close>
  (connection failure, timeout).
\<close>

datatype exn =
    HTTPError string
  | RequestException string
  | JSONDecodeError string
  | KeyError string
  | IndexError string
  | TypeError string
  | ValueError string
  | RuntimeError string
  | AttributeError string
  | NameError string
  | FileNotFoundError string
  | OSError string
  | OtherError string

text \<open>\<^verbatim>\<open>str(e)\<close>: the message; for a \<open>KeyError\<close> the \<^verbatim>\<open>repr\<close> of the key.\<close>

fun str_exn :: "exn \<Rightarrow> string" where
  "str_exn (HTTPError m) = m"
| "str_exn (RequestException m) = m"
| "str_exn (JSONDecodeError m) = m"
| "str_exn (KeyError k) = k"
| "str_exn (IndexError m) = m"
| "str_exn (TypeError m) = m"
| "str_exn (ValueError m) = m"
| "str_exn (RuntimeError m) = m"
| "str_exn (AttributeError m) = m"
| "str_exn (NameError m) = m"
| "str_exn (FileNotFoundError m) = m"
| "str_exn (OSError m) = m"
| "str_exn (OtherError m) = m"

text \<open>Sequencing: the second statement runs unless the first one raised.\<close>

definition and_then :: "exn + 'a \<Rightarrow> ('a \<Rightarrow> exn + 'b) \<Rightarrow> exn + 'b" where
  "and_then r f = (case r of Inl e \<Rightarrow> Inl e | Inr x \<Rightarrow> f x)"

definition hex_digit :: "nat \<Rightarrow> char" where
  "hex_digit n = (if n < 10 then char_of (48 + n) else char_of (87 + n))"

text \<open>
  \<^verbatim>\<open>repr\<close> of an ASCII \<^verbatim>\<open>str\<close>: single quotes, unless the string holds a single quote and
  no double quote; the quote and the backslash are escaped, tab, newline and carriage
  return are written \<^verbatim>\<open>\t \n \r\<close>, other control characters \<^verbatim>\<open>\xNN\<close>.
\<close>

definition repr_char :: "char \<Rightarrow> char \<Rightarrow> string" where
  "repr_char q c =
     (let n = (of_char c :: nat) in
      if c = q \<or> c = CHR 0x5C then [CHR 0x5C, c]
      else if c = CHR 0x09 then [CHR 0x5C, CHR ''t'']
      else if c = CHR 0x0A then [CHR 0x5C, CHR ''n'']
      else if c = CHR 0x0D then [CHR 0x5C, CHR ''r'']
      else if n < 32 \<or> n = 127 then [CHR 0x5C, CHR ''x'', hex_digit (n div 16), hex_digit (n mod 16)]
      else [c])"

definition py_repr :: "string \<Rightarrow> string" where
  "py_repr s =
     (let q = (if CHR 0x27 \<in> set s \<and> CHR 0x22 \<notin> set s then CHR 0x22 else CHR 0x27)
      in [q] @ concat (map (repr_char q) s) @ [q])"

text \<open>\<^verbatim>\<open>str(n)\<close> of a non-negative \<^verbatim>\<open>int\<close>.\<close>

fun str_nat :: "nat \<Rightarrow> string" where
  "str_nat n = (if n < 10 then [char_of (48 + n)] else str_nat (n div 10) @ [char_of (48 + n mod 10)])"

declare str_nat.simps [simp del]

text \<open>\<^verbatim>\<open>str.isspace\<close> on ASCII: tab to carriage return, the four separators 28 to 31, space.\<close>

definition is_space :: "char \<Rightarrow> bool" where
  "is_space c = (let n = (of_char c :: nat) in (9 \<le> n \<and> n \<le> 13) \<or> (28 \<le> n \<and> n \<le> 32))"

definition strip :: "string \<Rightarrow> string" where
  "strip s = rev (dropWhile is_space (rev (dropWhile is_space s)))"

text \<open>
  The lower case of an ASCII character, for the case-insensitive matching of the regular
  expressions below, whose letters are ASCII.
\<close>

definition lower_char :: "char \<Rightarrow> char" where
  "lower_char c = (let n = (of_char c :: nat) in if 65 \<le> n \<and> n \<le> 90 then char_of (n + 32) else c)"

subsection \<open>Strings of any characters\<close>

text \<open>
  The weekday name comes from the model service and may hold any character, so it is
  the list of its code points. \<open>ustr\<close> turns an ASCII literal into such a list.
\<close>

type_synonym ustring = "nat list"

definition ustr :: "string \<Rightarrow> ustring" where
  "ustr s = map of_char s"

definition is_ascii :: "ustring \<Rightarrow> bool" where
  "is_ascii s = list_all (\<lambda>c. c < 128) s"

definition upper_code :: "nat \<Rightarrow> nat" where
  "upper_code c = (if 97 \<le> c \<and> c \<le> 122 then c - 32 else c)"

definition lower_code :: "nat \<Rightarrow> nat" where
  "lower_code c = (if 65 \<le> c \<and> c \<le> 90 then c + 32 else c)"

subsection \<open>Paths\<close>

text \<open>
  \<^verbatim>\<open>os.path.dirname\<close> (posixpath): everything up to and including the last slash, then the
  trailing slashes removed unless the head consists of slashes only.
\<close>

definition dirname :: "string \<Rightarrow> string" where
  "dirname p =
     (let head = rev (dropWhile (\<lambda>c. c \<noteq> CHR ''/'') (rev p))
      in if head \<noteq> [] \<and> \<not> list_all (\<lambda>c. c = CHR ''/'') head
         then rev (dropWhile (\<lambda>c. c = CHR ''/'') (rev head))
         else head)"

text \<open>\<^verbatim>\<open>os.path.join(a, b)\<close> (posixpath), two components.\<close>

definition path_join :: "string \<Rightarrow> string \<Rightarrow> string" where
  "path_join a b =
     (if b \<noteq> [] \<and> hd b = CHR ''/'' then b
      else if a = [] \<or> last a = CHR ''/'' then a @ b
      else a @ ''/'' @ b)"

definition RESULTS_DIR :: string where
  "RESULTS_DIR = ''./task_results''"

subsection \<open>Files\<close>

text \<open>
  The file system maps a path to what opening it gives: nothing there (\<open>None\<close>), a
  regular file with its text, or a path whose \<^verbatim>\<open>open\<close> raises the given exception
  (a directory, a file without permission, a path under a missing directory).
  Opening for reading an absent path raises \<open>FileNotFoundError\<close>; opening for writing
  creates or truncates the file. The empty path cannot be opened.
\<close>

datatype node = File string | Broken exn

type_synonym filesystem = "string \<rightharpoonup> node"

definition open_read :: "filesystem \<Rightarrow> string \<Rightarrow> exn + string" where
  "open_read files p =
     (if p = [] then Inl (FileNotFoundError (''[Errno 2] No such file or directory: '' @ py_repr p))
      else case files p of
        None \<Rightarrow> Inl (FileNotFoundError (''[Errno 2] No such file or directory: '' @ py_repr p))
      | Some (File content) \<Rightarrow> Inr content
      | Some (Broken e) \<Rightarrow> Inl e)"

definition open_write :: "filesystem \<Rightarrow> string \<Rightarrow> string \<Rightarrow> exn + filesystem" where
  "open_write files p content =
     (if p = [] then Inl (FileNotFoundError (''[Errno 2] No such file or directory: '' @ py_repr p))
      else case files p of
        Some (Broken e) \<Rightarrow> Inl e
      | _ \<Rightarrow> Inr (files(p \<mapsto> File content)))"

text \<open>Text mode reads with universal newlines: \<^verbatim>\<open>\r\n\<close> and \<^verbatim>\<open>\r\<close> become \<^verbatim>\<open>\n\<close>.\<close>

fun translate_newlines :: "string \<Rightarrow> string" where
  "translate_newlines [] = []"
| "translate_newlines (c # cs) =
     (if c = CHR 0x0D then
        (case cs of
           [] \<Rightarrow> [CHR 0x0A]
         | d # ds \<Rightarrow> if d = CHR 0x0A then CHR 0x0A # translate_newlines ds
                     else CHR 0x0A # translate_newlines cs)
      else c # translate_newlines cs)"

text \<open>Iterating over a text file yields its lines, each with its newline; the last line may lack it.\<close>

fun lines_from :: "string \<Rightarrow> string \<Rightarrow> string list" where
  "lines_from cur [] = (if cur = [] then [] else [rev cur])"
| "lines_from cur (c # cs) =
     (if c = CHR 0x0A then rev (c # cur) # lines_from [] cs else lines_from (c # cur) cs)"

definition file_lines :: "string \<Rightarrow> string list" where
  "file_lines content = lines_from [] (translate_newlines content)"

section \<open>Command schema\<close>

datatype OperationType =
    RUN_SCRIPT
  | FORMAT_MARKDOWN
  | COUNT_WEEKDAYS
  | SORT_JSON
  | EXTRACT_RECENT_LOGS
  | CREATE_MARKDOWN_INDEX
  | EXTRACT_EMAIL_SENDER
  | EXTRACT_CREDIT_CARD
  | CALCULATE_GOLD_SALES
  | FIND_SIMILAR_COMMENTS

text \<open>The members in definition order, which is the order of iteration over the enumeration.\<close>

definition OperationType_members :: "OperationType list" where
  "OperationType_members =
     [RUN_SCRIPT, FORMAT_MARKDOWN, COUNT_WEEKDAYS, SORT_JSON, EXTRACT_RECENT_LOGS,
      CREATE_MARKDOWN_INDEX, EXTRACT_EMAIL_SENDER, EXTRACT_CREDIT_CARD, CALCULATE_GOLD_SALES,
      FIND_SIMILAR_COMMENTS]"

fun op_value :: "OperationType \<Rightarrow> string" where
  "op_value RUN_SCRIPT = ''run_script''"
| "op_value FORMAT_MARKDOWN = ''format_markdown''"
| "op_value COUNT_WEEKDAYS = ''count_weekdays''"
| "op_value SORT_JSON = ''sort_json''"
| "op_value EXTRACT_RECENT_LOGS = ''extract_recent_logs''"
| "op_value CREATE_MARKDOWN_INDEX = ''create_markdown_index''"
| "op_value EXTRACT_EMAIL_SENDER = ''extract_email_sender''"
| "op_value EXTRACT_CREDIT_CARD = ''extract_credit_card''"
| "op_value CALCULATE_GOLD_SALES = ''calculate_gold_sales''"
| "op_value FIND_SIMILAR_COMMENTS = ''find_similar_comments''"

text \<open>\<^verbatim>\<open>str(member)\<close>, as the f-strings of \<^verbatim>\<open>execute\<close> print it.\<close>

fun op_str :: "OperationType \<Rightarrow> string" where
  "op_str RUN_SCRIPT = ''OperationType.RUN_SCRIPT''"
| "op_str FORMAT_MARKDOWN = ''OperationType.FORMAT_MARKDOWN''"
| "op_str COUNT_WEEKDAYS = ''OperationType.COUNT_WEEKDAYS''"
| "op_str SORT_JSON = ''OperationType.SORT_JSON''"
| "op_str EXTRACT_RECENT_LOGS = ''OperationType.EXTRACT_RECENT_LOGS''"
| "op_str CREATE_MARKDOWN_INDEX = ''OperationType.CREATE_MARKDOWN_INDEX''"
| "op_str EXTRACT_EMAIL_SENDER = ''OperationType.EXTRACT_EMAIL_SENDER''"
| "op_str EXTRACT_CREDIT_CARD = ''OperationType.EXTRACT_CREDIT_CARD''"
| "op_str CALCULATE_GOLD_SALES = ''OperationType.CALCULATE_GOLD_SALES''"
| "op_str FIND_SIMILAR_COMMENTS = ''OperationType.FIND_SIMILAR_COMMENTS''"

text \<open>
  The call \<^verbatim>\<open>OperationType(v)\<close>: the member whose value is \<open>v\<close>, or \<open>ValueError\<close>.
\<close>

definition OperationType_call :: "string \<Rightarrow> exn + OperationType" where
  "OperationType_call v =
     (case find (\<lambda>m. op_value m = v) OperationType_members of
        None \<Rightarrow> Inl (ValueError (py_repr v @ '' is not a valid OperationType''))
      | Some m \<Rightarrow> Inr m)"

record TaskParameters =
  weekday :: "ustring option"
  script_url :: "ustring option"
  llm_instruction :: "ustring option"

record ParsedTask =
  input_files :: "string list"
  operation :: OperationType
  parameters :: TaskParameters
  output_file :: string

section \<open>TaskManager\<close>

record TaskRecord =
  status :: string
  output_path :: string
  error :: "string option"

type_synonym TaskManager = "string \<rightharpoonup> TaskRecord"

definition create_task :: "TaskManager \<Rightarrow> string \<Rightarrow> string \<Rightarrow> TaskManager" where
  "create_task tasks task_id out =
     tasks(task_id \<mapsto> \<lparr>status = ''pending'', output_path = out, error = None\<rparr>)"

definition update_task :: "TaskManager \<Rightarrow> string \<Rightarrow> string \<Rightarrow> string option \<Rightarrow> TaskManager" where
  "update_task tasks task_id st err =
     (case tasks task_id of
        None \<Rightarrow> tasks
      | Some r \<Rightarrow> tasks(task_id \<mapsto> r\<lparr>status := st, error := err\<rparr>))"

definition get_task :: "TaskManager \<Rightarrow> string \<Rightarrow> TaskRecord option" where
  "get_task tasks task_id = tasks task_id"

section \<open>The upstream reply\<close>

text \<open>
  A decoded JSON value. An object is the \<^verbatim>\<open>dict\<close> that decoding built, as a list of
  entries with distinct keys. Numbers are integers.
\<close>

datatype json =
    JNull
  | JBool bool
  | JNum int
  | JStr string
  | JArr "json list"
  | JObj "(string \<times> json) list"

fun type_name :: "json \<Rightarrow> string" where
  "type_name JNull = ''NoneType''"
| "type_name (JBool _) = ''bool''"
| "type_name (JNum _) = ''int''"
| "type_name (JStr _) = ''str''"
| "type_name (JArr _) = ''list''"
| "type_name (JObj _) = ''dict''"

text \<open>Subscription \<^verbatim>\<open>v[k]\<close> with a string key.\<close>

fun getitem_key :: "json \<Rightarrow> string \<Rightarrow> exn + json" where
  "getitem_key (JObj kvs) k =
     (case map_of kvs k of None \<Rightarrow> Inl (KeyError (py_repr k)) | Some v \<Rightarrow> Inr v)"
| "getitem_key (JArr xs) k = Inl (TypeError ''list indices must be integers or slices, not str'')"
| "getitem_key (JStr s) k = Inl (TypeError (''string indices must be integers, not '' @ py_repr ''str''))"
| "getitem_key v k = Inl (TypeError (py_repr (type_name v) @ '' object is not subscriptable''))"

text \<open>
  Subscription \<^verbatim>\<open>v[0]\<close>. The keys of a decoded object are strings, so \<open>0\<close> is never
  among them.
\<close>

fun getitem_0 :: "json \<Rightarrow> exn + json" where
  "getitem_0 (JArr []) = Inl (IndexError ''list index out of range'')"
| "getitem_0 (JArr (x # xs)) = Inr x"
| "getitem_0 (JObj kvs) = Inl (KeyError ''0'')"
| "getitem_0 (JStr []) = Inl (IndexError ''string index out of range'')"
| "getitem_0 (JStr (c # cs)) = Inr (JStr [c])"
| "getitem_0 v = Inl (TypeError (py_repr (type_name v) @ '' object is not subscriptable''))"

text \<open>
  What \<^verbatim>\<open>requests.post\<close> returns: the status code, the body as text, and the body decoded
  (\<open>None\<close> when the body is not JSON, so that \<^verbatim>\<open>response.json()\<close> raises).
\<close>

record http_response =
  status_code :: nat
  body_text :: string
  body_json :: "json option"

definition raise_for_status :: "http_response \<Rightarrow> exn + unit" where
  "raise_for_status response =
     (if 400 \<le> status_code response \<and> status_code response < 600
      then Inl (HTTPError (body_text response)) else Inr ())"

definition response_json :: "http_response \<Rightarrow> exn + json" where
  "response_json response =
     (case body_json response of
        None \<Rightarrow> Inl (JSONDecodeError ''Expecting value: line 1 column 1 (char 0)'')
      | Some v \<Rightarrow> Inr v)"

text \<open>
  What \<^verbatim>\<open>json.loads\<close> gives for the text of the function call's arguments: a value that
  is not an object (only its type name matters: \<^verbatim>\<open>.get\<close> on it raises), or an object.
  Of an object the program reads four keys. The entries that are present hold values of
  the types that the request schema declares: a list of strings, a string, an object
  of strings, a string.
\<close>

record arguments =
  arg_input_files :: "string list option"
  arg_operation :: "string option"
  arg_parameters :: "(string \<times> ustring) list option"
  arg_output_file :: "string option"

datatype loaded = NonObject string | Object arguments

section \<open>The environment\<close>

datatype handler =
    self_format_markdown
  | self_count_weekdays
  | self_sort_contacts
  | self_extract_recent_logs
  | self_create_markdown_index
  | self_extract_email_sender
  | self_extract_credit_card
  | self_calculate_gold_sales
  | self_find_similar_comments

text \<open>
  Everything outside the program: the environment variable \<^verbatim>\<open>API_TOKEN\<close>, the reply of
  the model service to the request that carries a description (the description is
  \<open>None\<close> when the request body has no \<^verbatim>\<open>task_description\<close>), the JSON decoder on the
  arguments text, and the eight file transformers other than \<^verbatim>\<open>count_weekdays\<close>, each
  taking the input path, the output path and the file system, and raising or returning
  the file system it leaves (a handler that raises is taken to leave the files as they
  were). The last field is \<^verbatim>\<open>str.capitalize\<close> on the strings that hold a character outside
  ASCII, as the Unicode tables of the interpreter define it.
\<close>

record world =
  API_TOKEN :: "string option"
  post :: "string option \<Rightarrow> exn + http_response"
  decode :: "string \<Rightarrow> exn + loaded"
  run_handler :: "handler \<Rightarrow> string \<Rightarrow> string \<Rightarrow> filesystem \<Rightarrow> exn + filesystem"
  capitalize_unicode :: "ustring \<Rightarrow> ustring"

text \<open>\<^verbatim>\<open>json.loads(v)\<close>: a \<open>TypeError\<close> unless \<open>v\<close> is a string.\<close>

definition json_loads :: "world \<Rightarrow> json \<Rightarrow> exn + loaded" where
  "json_loads w v =
     (case v of
        JStr s \<Rightarrow> decode w s
      | _ \<Rightarrow> Inl (TypeError (''the JSON object must be str, bytes or bytearray, not '' @ type_name v)))"

section \<open>TaskExecutor\<close>

text \<open>\<^verbatim>\<open>__init__\<close> with no argument: the token of the environment, which must be non-empty.\<close>

definition TaskExecutor_init :: "world \<Rightarrow> exn + string" where
  "TaskExecutor_init w =
     (case API_TOKEN w of
        None \<Rightarrow> Inl (ValueError ''Missing AIPROXY_TOKEN. Get it from https://aiproxy.sanand.workers.dev/'')
      | Some t \<Rightarrow>
          if t = [] then Inl (ValueError ''Missing AIPROXY_TOKEN. Get it from https://aiproxy.sanand.workers.dev/'')
          else Inr t)"

text \<open>
  \<^verbatim>\<open>TaskParameters(**d)\<close>: a \<open>TypeError\<close> at the first key that is not a field, else the
  fields that \<open>d\<close> gives, the others \<open>None\<close>.
\<close>

definition TaskParameters_init :: "(string \<times> ustring) list \<Rightarrow> exn + TaskParameters" where
  "TaskParameters_init d =
     (case filter (\<lambda>k. k \<notin> set [''weekday'', ''script_url'', ''llm_instruction'']) (map fst d) of
        k # _ \<Rightarrow> Inl (TypeError (''TaskParameters.__init__() got an unexpected keyword argument '' @ py_repr k))
      | [] \<Rightarrow> Inr \<lparr>weekday = map_of d ''weekday'', script_url = map_of d ''script_url'',
                   llm_instruction = map_of d ''llm_instruction''\<rparr>)"

text \<open>
  The body of the \<^verbatim>\<open>try\<close> of \<^verbatim>\<open>parse_task_description\<close>, statement by statement; the
  arguments of \<^verbatim>\<open>ParsedTask(...)\<close> are evaluated in the order written.
\<close>

definition ParsedTask_of :: "arguments \<Rightarrow> exn + ParsedTask" where
  "ParsedTask_of a =
     (let files = (case arg_input_files a of None \<Rightarrow> [] | Some xs \<Rightarrow> xs) in
      and_then (case arg_operation a of
                  None \<Rightarrow> Inl (KeyError (py_repr ''operation''))
                | Some v \<Rightarrow> OperationType_call v) (\<lambda>opn.
      and_then (TaskParameters_init (case arg_parameters a of None \<Rightarrow> [] | Some d \<Rightarrow> d)) (\<lambda>params.
      and_then (case arg_output_file a of
                  None \<Rightarrow> Inl (KeyError (py_repr ''output_file''))
                | Some out \<Rightarrow> Inr out) (\<lambda>out.
      Inr \<lparr>input_files = files, operation = opn, parameters = params, output_file = out\<rparr>))))"

definition parse_body :: "world \<Rightarrow> string option \<Rightarrow> exn + ParsedTask" where
  "parse_body w task_description =
     and_then (post w task_description) (\<lambda>response.
     and_then (raise_for_status response) (\<lambda>_.
     and_then (response_json response) (\<lambda>result.
     and_then (getitem_key result ''choices'') (\<lambda>choices.
     and_then (getitem_0 choices) (\<lambda>choice.
     and_then (getitem_key choice ''message'') (\<lambda>message.
     and_then (getitem_key message ''function_call'') (\<lambda>function_call.
     and_then (getitem_key function_call ''arguments'') (\<lambda>text.
     and_then (json_loads w text) (\<lambda>l.
       case l of
         NonObject t \<Rightarrow> Inl (AttributeError (py_repr t @ '' object has no attribute '' @ py_repr ''get''))
       | Object a \<Rightarrow> ParsedTask_of a)))))))))"

text \<open>
  The two \<^verbatim>\<open>except\<close> clauses: an \<open>HTTPError\<close> and a \<open>KeyError\<close> become a \<open>RuntimeError\<close>;
  every other exception leaves the function as it is.
\<close>

definition parse_task_description :: "world \<Rightarrow> string option \<Rightarrow> exn + ParsedTask" where
  "parse_task_description w task_description =
     (case parse_body w task_description of
        Inl (HTTPError response_text) \<Rightarrow> Inl (RuntimeError (''AI Proxy error: '' @ response_text))
      | Inl (KeyError k) \<Rightarrow> Inl (RuntimeError (''Malformed API response: '' @ k))
      | Inl e \<Rightarrow> Inl e
      | Inr parsed \<Rightarrow> Inr parsed)"

section \<open>\<^verbatim>\<open>datetime.strptime\<close> and \<^verbatim>\<open>strftime\<close>\<close>

text \<open>
  \<^verbatim>\<open>strptime\<close> turns the format into a regular expression, matches it at the start of the
  data and raises \<open>ValueError\<close> when it does not match, when data remains after the match,
  or when the fields are not a date. Here \<open>None\<close> is that \<open>ValueError\<close>. A directive is an
  ordered choice; each choice is one of the shapes below, named by the ranges of its digits.
\<close>

definition digit_of :: "char \<Rightarrow> nat option" where
  "digit_of c = (let n = (of_char c :: nat) in if 48 \<le> n \<and> n \<le> 57 then Some (n - 48) else None)"

definition one_digit :: "nat \<Rightarrow> nat \<Rightarrow> string \<Rightarrow> (nat \<times> string) option" where
  "one_digit lo hi s =
     (case s of
        [] \<Rightarrow> None
      | a # r \<Rightarrow> Option.bind (digit_of a) (\<lambda>x. if lo \<le> x \<and> x \<le> hi then Some (x, r) else None))"

definition two_digits :: "nat \<Rightarrow> nat \<Rightarrow> nat \<Rightarrow> nat \<Rightarrow> string \<Rightarrow> (nat \<times> string) option" where
  "two_digits lo1 hi1 lo2 hi2 s =
     Option.bind (one_digit lo1 hi1 s) (\<lambda>(x, r).
     Option.bind (one_digit lo2 hi2 r) (\<lambda>(y, r'). Some (10 * x + y, r')))"

definition four_digits :: "string \<Rightarrow> (nat \<times> string) option" where
  "four_digits s =
     Option.bind (two_digits 0 9 0 9 s) (\<lambda>(x, r).
     Option.bind (two_digits 0 9 0 9 r) (\<lambda>(y, r'). Some (100 * x + y, r')))"

definition space_digit :: "string \<Rightarrow> (nat \<times> string) option" where
  "space_digit s = (case s of [] \<Rightarrow> None | a # r \<Rightarrow> if a = CHR 0x20 then one_digit 1 9 r else None)"

fun first_match :: "(string \<Rightarrow> (nat \<times> string) option) list \<Rightarrow> string \<Rightarrow> (nat \<times> string) option" where
  "first_match [] s = None"
| "first_match (p # ps) s = (case p s of Some r \<Rightarrow> Some r | None \<Rightarrow> first_match ps s)"

text \<open>
  The abbreviated month names of the C locale, lower case as \<^verbatim>\<open>LocaleTime\<close> keeps them;
  the empty name at index 0 makes the index of a name its month number.
\<close>

definition a_month :: "string list" where
  "a_month = [[], ''jan'', ''feb'', ''mar'', ''apr'', ''may'', ''jun'', ''jul'', ''aug'', ''sep'',
              ''oct'', ''nov'', ''dec'']"

fun index_of :: "'a list \<Rightarrow> 'a \<Rightarrow> nat option" where
  "index_of [] x = None"
| "index_of (y # ys) x = (if x = y then Some 0 else map_option Suc (index_of ys x))"

definition month_name :: "string \<Rightarrow> (nat \<times> string) option" where
  "month_name s =
     (if length s < 3 then None
      else Option.bind (index_of a_month (map lower_char (take 3 s))) (\<lambda>i. Some (i, drop 3 s)))"

text \<open>
  The directives that the formats of \<^verbatim>\<open>count_weekdays\<close> use, with their regular expressions:
  \<^verbatim>\<open>%Y  \d\d\d\d\<close>,
  \<^verbatim>\<open>%m  1[0-2]|0[1-9]|[1-9]\<close>,
  \<^verbatim>\<open>%d  3[0-1]|[1-2]\d|0[1-9]|[1-9]| [1-9]\<close>,
  \<^verbatim>\<open>%b  jan|feb|...|dec\<close>,
  \<^verbatim>\<open>%H  2[0-3]|[0-1]\d|\d\<close>,
  \<^verbatim>\<open>%M  [0-5]\d|\d\<close>,
  \<^verbatim>\<open>%S  6[0-1]|[0-5]\d|\d\<close>.
  Any other directive matches nothing here.
\<close>

definition directive :: "char \<Rightarrow> string \<Rightarrow> (nat \<times> string) option" where
  "directive d =
     (if d = CHR ''Y'' then four_digits
      else if d = CHR ''m'' then first_match [two_digits 1 1 0 2, two_digits 0 0 1 9, one_digit 1 9]
      else if d = CHR ''d'' then
        first_match [two_digits 3 3 0 1, two_digits 1 2 0 9, two_digits 0 0 1 9, one_digit 1 9, space_digit]
      else if d = CHR ''b'' then month_name
      else if d = CHR ''H'' then first_match [two_digits 2 2 0 3, two_digits 0 1 0 9, one_digit 0 9]
      else if d = CHR ''M'' then first_match [two_digits 0 5 0 9, one_digit 0 9]
      else if d = CHR ''S'' then first_match [two_digits 6 6 0 1, two_digits 0 5 0 9, one_digit 0 9]
      else (\<lambda>s. None))"

text \<open>
  \<^verbatim>\<open>TimeRE.pattern\<close>: a run of white space in the format becomes \<^verbatim>\<open>\s+\<close>, a percent sign
  with the next character a directive (\<^verbatim>\<open>%%\<close> a literal percent sign), a percent sign at
  the end is an error, any other character stands for itself.
\<close>

datatype fmt_item = Directive char | Literal char | Whitespace | Bad

fun pattern_from :: "bool \<Rightarrow> string \<Rightarrow> fmt_item list" where
  "pattern_from ws [] = []"
| "pattern_from ws (c # cs) =
     (if is_space c then (if ws then pattern_from True cs else Whitespace # pattern_from True cs)
      else if c = CHR ''%'' then
        (case cs of
           [] \<Rightarrow> [Bad]
         | d # ds \<Rightarrow> (if d = CHR ''%'' then Literal d else Directive d) # pattern_from False ds)
      else Literal c # pattern_from False cs)"

text \<open>
  Matching, case-insensitive, from the left. The engine of \<^verbatim>\<open>re\<close> backtracks, but for
  the directives above followed by a literal character, by white space or by the end
  of the format, a choice that fails further on is never rescued by a later choice.
\<close>

fun match_items :: "fmt_item list \<Rightarrow> string \<Rightarrow> (char \<times> nat) list \<Rightarrow> ((char \<times> nat) list \<times> string) option" where
  "match_items [] s found = Some (found, s)"
| "match_items (Literal c # items) s found =
     (case s of
        [] \<Rightarrow> None
      | x # r \<Rightarrow> if lower_char x = lower_char c then match_items items r found else None)"
| "match_items (Whitespace # items) s found =
     (case s of
        [] \<Rightarrow> None
      | x # r \<Rightarrow> if is_space x then match_items items (dropWhile is_space r) found else None)"
| "match_items (Directive d # items) s found =
     (case directive d s of
        None \<Rightarrow> None
      | Some (v, r) \<Rightarrow> match_items items r ((d, v) # found))"
| "match_items (Bad # items) s found = None"

record datetime =
  year :: nat
  month :: nat
  day :: nat
  hour :: nat
  minute :: nat
  second :: nat

definition is_leap :: "nat \<Rightarrow> bool" where
  "is_leap y = (y mod 4 = 0 \<and> (y mod 100 \<noteq> 0 \<or> y mod 400 = 0))"

definition days_in_month :: "nat \<Rightarrow> nat \<Rightarrow> nat" where
  "days_in_month y m =
     (if m = 2 \<and> is_leap y then 29 else [31, 28, 31, 30, 31, 30, 31, 31, 30, 31, 30, 31] ! (m - 1))"

text \<open>The constructor \<^verbatim>\<open>datetime(y, m, d, H, M, S)\<close>: \<open>ValueError\<close> outside the ranges.\<close>

definition datetime_new :: "nat \<Rightarrow> nat \<Rightarrow> nat \<Rightarrow> nat \<Rightarrow> nat \<Rightarrow> nat \<Rightarrow> datetime option" where
  "datetime_new y m d H M S =
     (if 1 \<le> y \<and> y \<le> 9999 \<and> 1 \<le> m \<and> m \<le> 12 \<and> 1 \<le> d \<and> d \<le> days_in_month y m
         \<and> H \<le> 23 \<and> M \<le> 59 \<and> S \<le> 59
      then Some \<lparr>year = y, month = m, day = d, hour = H, minute = M, second = S\<rparr>
      else None)"

definition found_get :: "(char \<times> nat) list \<Rightarrow> char \<Rightarrow> nat \<Rightarrow> nat" where
  "found_get found d dflt = (case map_of found d of None \<Rightarrow> dflt | Some v \<Rightarrow> v)"

text \<open>
  The fields that the format does not give default to 1900-01-01 00:00:00; the month
  comes from \<^verbatim>\<open>%m\<close> or from \<^verbatim>\<open>%b\<close> (no format here has both).
\<close>

definition strptime :: "string \<Rightarrow> string \<Rightarrow> datetime option" where
  "strptime data_string fmt =
     (case match_items (pattern_from False fmt) data_string [] of
        None \<Rightarrow> None
      | Some (found, rest) \<Rightarrow>
          if rest \<noteq> [] then None
          else datetime_new (found_get found (CHR ''Y'') 1900)
                 (found_get found (CHR ''m'') (found_get found (CHR ''b'') 1))
                 (found_get found (CHR ''d'') 1) (found_get found (CHR ''H'') 0)
                 (found_get found (CHR ''M'') 0) (found_get found (CHR ''S'') 0))"

text \<open>
  \<^verbatim>\<open>toordinal\<close>: the days since 0001-01-01 (which is day 1) in the proleptic Gregorian
  calendar; \<^verbatim>\<open>weekday\<close>: Monday is 0; \<^verbatim>\<open>strftime('%A')\<close>: the name in the C locale.
\<close>

definition days_before_year :: "nat \<Rightarrow> nat" where
  "days_before_year y = (y - 1) * 365 + (y - 1) div 4 - (y - 1) div 100 + (y - 1) div 400"

definition days_before_month :: "nat \<Rightarrow> nat \<Rightarrow> nat" where
  "days_before_month y m = sum_list (map (days_in_month y) [1..<m])"

definition toordinal :: "datetime \<Rightarrow> nat" where
  "toordinal dt = days_before_year (year dt) + days_before_month (year dt) (month dt) + day dt"

definition py_weekday :: "datetime \<Rightarrow> nat" where
  "py_weekday dt = (toordinal dt + 6) mod 7"

definition strftime_A :: "datetime \<Rightarrow> string" where
  "strftime_A dt =
     [''Monday'', ''Tuesday'', ''Wednesday'', ''Thursday'', ''Friday'', ''Saturday'', ''Sunday'']
       ! py_weekday dt"

section \<open>\<^verbatim>\<open>count_weekdays\<close>\<close>

definition date_formats :: "string list" where
  "date_formats = [''%Y-%m-%d'', ''%d-%b-%Y'', ''%b %d, %Y'', ''%Y/%m/%d %H:%M:%S'']"

text \<open>
  The inner loop over the formats: the first format that parses the stripped line
  decides whether the count goes up, and ends the loop (\<^verbatim>\<open>break\<close>); a format that raises
  \<open>ValueError\<close> passes to the next (\<^verbatim>\<open>continue\<close>).
\<close>

fun try_formats :: "string list \<Rightarrow> string \<Rightarrow> ustring \<Rightarrow> nat \<Rightarrow> nat" where
  "try_formats [] line wd count = count"
| "try_formats (fmt # fmts) line wd count =
     (case strptime (strip line) fmt of
        None \<Rightarrow> try_formats fmts line wd count
      | Some date \<Rightarrow> if ustr (strftime_A date) = wd then count + 1 else count)"

fun count_lines :: "string list \<Rightarrow> ustring \<Rightarrow> nat \<Rightarrow> nat" where
  "count_lines [] wd count = count"
| "count_lines (line # rest) wd count = count_lines rest wd (try_formats date_formats line wd count)"

text \<open>
  \<^verbatim>\<open>str.capitalize\<close>: the first character in title case, the rest in lower case. On an
  ASCII string that is the upper case of the first letter and the lower case of the other
  letters; on any other string it is what the environment gives.
\<close>

definition capitalize :: "world \<Rightarrow> ustring \<Rightarrow> ustring" where
  "capitalize w s =
     (if is_ascii s then (case s of [] \<Rightarrow> [] | c # cs \<Rightarrow> upper_code c # map lower_code cs)
      else capitalize_unicode w s)"

definition count_weekdays :: "world \<Rightarrow> filesystem \<Rightarrow> string \<Rightarrow> ustring \<Rightarrow> string \<Rightarrow> exn + filesystem" where
  "count_weekdays w files in_file wd out_file =
     (let wd' = capitalize w wd in
      and_then (open_read files in_file) (\<lambda>content.
      open_write files out_file (str_nat (count_lines (file_lines content) wd' 0))))"


section \<open>\<^verbatim>\<open>execute\<close>\<close>

definition handler_map :: "OperationType \<rightharpoonup> handler" where
  "handler_map = map_of
     [(FORMAT_MARKDOWN, self_format_markdown),
      (COUNT_WEEKDAYS, self_count_weekdays),
      (SORT_JSON, self_sort_contacts),
      (EXTRACT_RECENT_LOGS, self_extract_recent_logs),
      (CREATE_MARKDOWN_INDEX, self_create_markdown_index),
      (EXTRACT_EMAIL_SENDER, self_extract_email_sender),
      (EXTRACT_CREDIT_CARD, self_extract_credit_card),
      (CALCULATE_GOLD_SALES, self_calculate_gold_sales),
      (FIND_SIMILAR_COMMENTS, self_find_similar_comments)]"

definition task_data_dirs :: "OperationType \<rightharpoonup> string" where
  "task_data_dirs = map_of
     [(FORMAT_MARKDOWN, ''./data/docs/agent/director.md''),
      (COUNT_WEEKDAYS, ''./data/dates''),
      (SORT_JSON, ''./data/contacts.json''),
      (EXTRACT_RECENT_LOGS, ''/data/logs''),
      (CREATE_MARKDOWN_INDEX, ''/data/docs''),
      (EXTRACT_EMAIL_SENDER, ''/data/emails''),
      (EXTRACT_CREDIT_CARD, ''/data/images''),
      (CALCULATE_GOLD_SALES, ''/data/databases''),
      (FIND_SIMILAR_COMMENTS, ''/data/comments'')]"

text \<open>
  The call that \<^verbatim>\<open>execute\<close> ends with: the handler and its positional arguments, three
  for the weekday count, two for the others.
\<close>

datatype call = Call3 handler string ustring string | Call2 handler string string

text \<open>
  \<^verbatim>\<open>parsed.input_files[0] if parsed.input_files else task_data_dirs.get(parsed.operation, "")\<close>
\<close>

definition input_path_of :: "ParsedTask \<Rightarrow> string" where
  "input_path_of parsed =
     (case input_files parsed of
        x # _ \<Rightarrow> x
      | [] \<Rightarrow> (case task_data_dirs (operation parsed) of None \<Rightarrow> [] | Some d \<Rightarrow> d))"

text \<open>\<^verbatim>\<open>parsed.parameters.weekday or "Wednesday"\<close>: an absent or empty weekday gives the default.\<close>

definition weekday_or_default :: "ParsedTask \<Rightarrow> ustring" where
  "weekday_or_default parsed =
     (case weekday (parameters parsed) of
        None \<Rightarrow> ustr ''Wednesday''
      | Some wd \<Rightarrow> if wd = [] then ustr ''Wednesday'' else wd)"

text \<open>
  The part of \<^verbatim>\<open>execute\<close> after parsing and before the handler runs: the look-up of the
  handler, the input path and its check, and the choice of the arguments.
\<close>

definition resolve :: "ParsedTask \<Rightarrow> exn + call" where
  "resolve parsed =
     (case handler_map (operation parsed) of
        None \<Rightarrow> Inl (ValueError (''Unsupported operation: '' @ op_str (operation parsed)))
      | Some h \<Rightarrow>
          let input_path = input_path_of parsed in
          if input_path = []
          then Inl (ValueError (''No valid input path found for operation: '' @ op_str (operation parsed)))
          else if operation parsed = COUNT_WEEKDAYS
          then Inr (Call3 h input_path (weekday_or_default parsed) (output_file parsed))
          else if operation parsed \<in> set [EXTRACT_RECENT_LOGS, CREATE_MARKDOWN_INDEX]
          then Inr (Call2 h (dirname input_path) (output_file parsed))
          else Inr (Call2 h input_path (output_file parsed)))"

text \<open>
  Running the call. \<^verbatim>\<open>count_weekdays\<close> takes three arguments and the other handlers two;
  a call of the wrong arity is a \<open>TypeError\<close>.
\<close>

fun invoke :: "world \<Rightarrow> call \<Rightarrow> filesystem \<Rightarrow> exn + filesystem" where
  "invoke w (Call3 h a b c) files =
     (if h = self_count_weekdays then count_weekdays w files a b c
      else Inl (TypeError ''takes 3 positional arguments but 4 were given''))"
| "invoke w (Call2 h a b) files =
     (if h = self_count_weekdays
      then Inl (TypeError ''count_weekdays() missing 1 required positional argument'')
      else run_handler w h a b files)"

definition execute :: "world \<Rightarrow> string option \<Rightarrow> filesystem \<Rightarrow> exn + filesystem" where
  "execute w task_description files =
     and_then (parse_task_description w task_description) (\<lambda>parsed.
     and_then (resolve parsed) (\<lambda>c.
     invoke w c files))"

section \<open>The endpoints\<close>

datatype body = error_json string | task_id_json string | content_json string

text \<open>
  A reply with its status code, or an exception that leaves the view function (which
  the framework turns into its own error page).
\<close>

datatype reply = Reply nat body | Unhandled exn

record server =
  disk :: filesystem
  task_manager :: TaskManager

text \<open>
  The names that an instance of \<^verbatim>\<open>TaskExecutor\<close> has: the two set by \<^verbatim>\<open>__init__\<close> and
  those bound in the class body.
\<close>

definition TaskExecutor_attributes :: "string list" where
  "TaskExecutor_attributes =
     [''api_token'', ''base_url'', ''__init__'', ''parse_task_description'', ''format_markdown'',
      ''count_weekdays'', ''sort_contacts'', ''extract_recent_logs'', ''create_markdown_index'',
      ''extract_email_sender'', ''extract_credit_card'', ''calculate_gold_sales'',
      ''find_similar_comments'', ''execute'', ''handle_task'', ''read_file'']"

definition getattr_executor :: "string \<Rightarrow> exn + string" where
  "getattr_executor name =
     (if name \<in> set TaskExecutor_attributes then Inr name
      else Inl (AttributeError (py_repr ''TaskExecutor'' @ '' object has no attribute '' @ py_repr name)))"

text \<open>
  The \<^verbatim>\<open>try\<close> of \<^verbatim>\<open>background_task\<close> is the call
  \<^verbatim>\<open>executor.execute_parsed(parsed, user_email)\<close>: the attribute is looked up first, then
  the arguments are evaluated, and \<^verbatim>\<open>parsed\<close> is bound neither in \<^verbatim>\<open>handle_task\<close> nor in
  the module.
\<close>

definition background_body :: "exn + unit" where
  "background_body =
     and_then (getattr_executor ''execute_parsed'') (\<lambda>_.
     Inl (NameError (''name '' @ py_repr ''parsed'' @ '' is not defined'')))"

definition background_task :: "string \<Rightarrow> TaskManager \<Rightarrow> TaskManager" where
  "background_task task_id tasks =
     (case background_body of
        Inr _ \<Rightarrow> update_task tasks task_id ''completed'' None
      | Inl e \<Rightarrow> update_task tasks task_id ''error'' (Some (str_exn e)))"

text \<open>
  \<^verbatim>\<open>handle_task\<close>, given the fresh identifier that \<^verbatim>\<open>uuid4\<close> returns and the
  \<^verbatim>\<open>task_description\<close> of the request body. The result is the reply, the server after the
  request, and the identifier of the task whose background thread was started, if one was.
\<close>

definition handle_task :: "world \<Rightarrow> string \<Rightarrow> string option \<Rightarrow> server \<Rightarrow> reply \<times> server \<times> string option" where
  "handle_task w task_id task_desc s =
     (let out = path_join RESULTS_DIR (task_id @ ''.out'') in
      case TaskExecutor_init w of
        Inl e \<Rightarrow> (Unhandled e, s, None)
      | Inr executor \<Rightarrow>
          (case execute w task_desc (disk s) of
             Inl e \<Rightarrow> (Reply 400 (error_json (str_exn e)), s, None)
           | Inr files' \<Rightarrow>
               (Reply 202 (task_id_json task_id),
                \<lparr>disk = files', task_manager = create_task (task_manager s) task_id out\<rparr>,
                Some task_id)))"

text \<open>The server once the thread that the request started, if any, has run.\<close>

definition after_thread :: "reply \<times> server \<times> string option \<Rightarrow> server" where
  "after_thread r =
     (case r of
        (_, s, None) \<Rightarrow> s
      | (_, s, Some task_id) \<Rightarrow> s\<lparr>task_manager := background_task task_id (task_manager s)\<rparr>)"

text \<open>
  \<^verbatim>\<open>read_file\<close>, given the \<^verbatim>\<open>path\<close> of the query string (\<open>None\<close> when it is absent). The
  result is the reply and the list of the paths that were opened.
\<close>

definition read_file :: "filesystem \<Rightarrow> string option \<Rightarrow> reply \<times> string list" where
  "read_file files file_path =
     (case file_path of
        None \<Rightarrow> (Reply 400 (error_json (''Missing '' @ py_repr ''path'' @ '' parameter'')), [])
      | Some p \<Rightarrow>
          if p = [] then (Reply 400 (error_json (''Missing '' @ py_repr ''path'' @ '' parameter'')), [])
          else (case open_read files p of
                  Inr content \<Rightarrow> (Reply 200 (content_json (translate_newlines content)), [p])
                | Inl (FileNotFoundError m) \<Rightarrow> (Reply 404 (error_json ''File not found''), [p])
                | Inl e \<Rightarrow> (Reply 500 (error_json (str_exn e)), [p])))"

section \<open>Reading a call, and a sample environment\<close>

fun call_handler :: "call \<Rightarrow> handler" where
  "call_handler (Call3 h a b c) = h"
| "call_handler (Call2 h a b) = h"

text \<open>The input path that the handler receives, its first argument.\<close>

fun call_input :: "call \<Rightarrow> string" where
  "call_input (Call3 h a b c) = a"
| "call_input (Call2 h a b) = a"

text \<open>
  A reply of the model service in the shape the parser expects, with the given text as
  the arguments of the function call.
\<close>

definition sample_reply :: "string \<Rightarrow> http_response" where
  "sample_reply args_text =
     \<lparr>status_code = 200, body_text = [],
      body_json = Some (JObj [(''choices'',
        JArr [JObj [(''message'',
          JObj [(''role'', JStr ''assistant''),
                (''function_call'',
                 JObj [(''name'', JStr ''parse_task''), (''arguments'', JStr args_text)])])]])])\<rparr>"

text \<open>
  The name \<^verbatim>\<open>tue\<close>, long s (U+017F, a lower-case letter whose upper case is S), \<^verbatim>\<open>day\<close>,
  and what \<^verbatim>\<open>str.capitalize\<close> makes of it: only the first letter changes, the long s is
  already lower case.
\<close>

definition long_s_tuesday :: ustring where
  "long_s_tuesday = [116, 117, 101, 383, 100, 97, 121]"

definition capitalize_long_s :: "ustring \<Rightarrow> ustring" where
  "capitalize_long_s s = (if s = long_s_tuesday then [84, 117, 101, 383, 100, 97, 121] else s)"

text \<open>
  An environment with a token, in which the service answers every description with an
  arguments text that the decoder maps to \<open>a\<close>, in which each of the other handlers
  writes an empty output file, and which knows the capitalisation of the one name above.
\<close>

definition sample_world :: "arguments \<Rightarrow> world" where
  "sample_world a =
     \<lparr>API_TOKEN = Some ''token'',
      post = (\<lambda>d. Inr (sample_reply ''<arguments>'')),
      decode = (\<lambda>t. Inr (Object a)),
      run_handler = (\<lambda>h i out files. open_write files out []),
      capitalize_unicode = capitalize_long_s\<rparr>"

definition count_args :: arguments where
  "count_args =
     \<lparr>arg_input_files = Some [''dates.txt''], arg_operation = Some ''count_weekdays'',
      arg_parameters = None, arg_output_file = Some ''out.txt''\<rparr>"

definition dates_txt :: string where
  "dates_txt = ''2024-01-03'' @ [CHR 0x0A] @ ''2024-01-10'' @ [CHR 0x0A] @ ''2024-01-11'' @ [CHR 0x0A]"

definition dates_disk :: filesystem where
  "dates_disk = [''dates.txt'' \<mapsto> File dates_txt]"


definition today_args :: arguments where
  "today_args =
     \<lparr>arg_input_files = Some [''today.log''], arg_operation = Some ''extract_recent_logs'',
      arg_parameters = None, arg_output_file = Some ''recent.txt''\<rparr>"

definition empty_server :: server where
  "empty_server = \<lparr>disk = Map.empty, task_manager = Map.empty\<rparr>"

definition logs_args :: arguments where
  "logs_args =
     \<lparr>arg_input_files = Some [''/var/log/app/today.log''], arg_operation = Some ''extract_recent_logs'',
      arg_parameters = None, arg_output_file = Some ''recent.txt''\<rparr>"

section \<open>Auxiliary facts\<close>

lemma handler_map_simps:
  "handler_map RUN_SCRIPT = None"
  "handler_map FORMAT_MARKDOWN = Some self_format_markdown"
  "handler_map COUNT_WEEKDAYS = Some self_count_weekdays"
  "handler_map SORT_JSON = Some self_sort_contacts"
  "handler_map EXTRACT_RECENT_LOGS = Some self_extract_recent_logs"
  "handler_map CREATE_MARKDOWN_INDEX = Some self_create_markdown_index"
  "handler_map EXTRACT_EMAIL_SENDER = Some self_extract_email_sender"
  "handler_map EXTRACT_CREDIT_CARD = Some self_extract_credit_card"
  "handler_map CALCULATE_GOLD_SALES = Some self_calculate_gold_sales"
  "handler_map FIND_SIMILAR_COMMENTS = Some self_find_similar_comments"
  by (simp_all add: handler_map_def)

lemma task_data_dirs_simps:
  "task_data_dirs RUN_SCRIPT = None"
  "task_data_dirs FORMAT_MARKDOWN = Some ''./data/docs/agent/director.md''"
  "task_data_dirs COUNT_WEEKDAYS = Some ''./data/dates''"
  "task_data_dirs SORT_JSON = Some ''./data/contacts.json''"
  "task_data_dirs EXTRACT_RECENT_LOGS = Some ''/data/logs''"
  "task_data_dirs CREATE_MARKDOWN_INDEX = Some ''/data/docs''"
  "task_data_dirs EXTRACT_EMAIL_SENDER = Some ''/data/emails''"
  "task_data_dirs EXTRACT_CREDIT_CARD = Some ''/data/images''"
  "task_data_dirs CALCULATE_GOLD_SALES = Some ''/data/databases''"
  "task_data_dirs FIND_SIMILAR_COMMENTS = Some ''/data/comments''"
  by (simp_all add: task_data_dirs_def)

lemma members_complete: "m \<in> set OperationType_members"
  by (cases m) (simp_all add: OperationType_members_def)

lemma handler_has_default:
  "handler_map m = Some h \<Longrightarrow> \<exists>d. task_data_dirs m = Some d \<and> d \<noteq> []"
  by (cases m) (simp_all add: handler_map_simps task_data_dirs_simps)








lemma resolve_registered:
  assumes "handler_map (operation p) = Some h"
  shows "resolve p =
     (if input_path_of p = []
      then Inl (ValueError (''No valid input path found for operation: '' @ op_str (operation p)))
      else if operation p = COUNT_WEEKDAYS
      then Inr (Call3 h (input_path_of p) (weekday_or_default p) (output_file p))
      else if operation p = EXTRACT_RECENT_LOGS \<or> operation p = CREATE_MARKDOWN_INDEX
      then Inr (Call2 h (dirname (input_path_of p)) (output_file p))
      else Inr (Call2 h (input_path_of p) (output_file p)))"
  using assms by (simp add: resolve_def Let_def)

lemma handle_task_rejects:
  assumes "TaskExecutor_init w = Inr tok" and "execute w d (disk s) = Inl e"
  shows "handle_task w tid d s = (Reply 400 (error_json (str_exn e)), s, None)"
  using assms by (simp add: handle_task_def Let_def)

lemma execute_parse_fails:
  "parse_task_description w d = Inl e \<Longrightarrow> execute w d files = Inl e"
  by (simp add: execute_def and_then_def)

lemma execute_resolve_fails:
  "parse_task_description w d = Inr p \<Longrightarrow> resolve p = Inl e \<Longrightarrow> execute w d files = Inl e"
  by (simp add: execute_def and_then_def)

lemma sample_world_init: "TaskExecutor_init (sample_world a) = Inr ''token''"
  by (simp add: TaskExecutor_init_def sample_world_def)

lemma parse_body_sample: "parse_body (sample_world a) d = ParsedTask_of a"
  by (simp add: parse_body_def sample_world_def sample_reply_def and_then_def raise_for_status_def
      response_json_def json_loads_def)

lemma repr_plain:
  "py_repr ''path'' = [CHR 0x27] @ ''path'' @ [CHR 0x27]"
  "py_repr ''operation'' = [CHR 0x27] @ ''operation'' @ [CHR 0x27]"
  "py_repr ''output_file'' = [CHR 0x27] @ ''output_file'' @ [CHR 0x27]"
  "py_repr ''dates.txt'' = [CHR 0x27] @ ''dates.txt'' @ [CHR 0x27]"
  "py_repr ''delete_files'' = [CHR 0x27] @ ''delete_files'' @ [CHR 0x27]"
  "py_repr ''TaskExecutor'' = [CHR 0x27] @ ''TaskExecutor'' @ [CHR 0x27]"
  "py_repr ''execute_parsed'' = [CHR 0x27] @ ''execute_parsed'' @ [CHR 0x27]"
  by (simp_all add: py_repr_def repr_char_def Let_def)

lemma parse_count_args:
  "parse_task_description (sample_world count_args) d =
     Inr \<lparr>input_files = [''dates.txt''], operation = COUNT_WEEKDAYS,
          parameters = \<lparr>weekday = None, script_url = None, llm_instruction = None\<rparr>,
          output_file = ''out.txt''\<rparr>"
  by (simp add: parse_task_description_def parse_body_sample ParsedTask_of_def count_args_def
      and_then_def OperationType_call_def OperationType_members_def TaskParameters_init_def)

lemmas date_eval = strptime_def strip_def is_space_def directive_def four_digits_def two_digits_def
  one_digit_def digit_of_def lower_char_def datetime_new_def found_get_def days_in_month_def
  is_leap_def strftime_A_def py_weekday_def toordinal_def days_before_year_def
  days_before_month_def date_formats_def ustr_def

lemmas code_eval = capitalize_def is_ascii_def upper_code_def lower_code_def ustr_def

lemma dates_lines:
  "file_lines dates_txt =
     [''2024-01-03\<newline>'', ''2024-01-10\<newline>'', ''2024-01-11\<newline>'']"
  by (simp add: file_lines_def dates_txt_def)

lemma dates_first: "try_formats date_formats (''2024-01-03\<newline>'') (ustr ''Wednesday'') n = n + 1"
  by (simp add: date_eval)

lemma dates_second: "try_formats date_formats (''2024-01-10\<newline>'') (ustr ''Wednesday'') n = n + 1"
  by (simp add: date_eval)

lemma dates_third: "try_formats date_formats (''2024-01-11\<newline>'') (ustr ''Wednesday'') n = n"
  by (simp add: date_eval)

lemma dates_weekdays:
  "map (\<lambda>l. map_option strftime_A (strptime (strip l) ''%Y-%m-%d''))
       [''2024-01-03\<newline>'', ''2024-01-10\<newline>'', ''2024-01-11\<newline>''] =
     [Some ''Wednesday'', Some ''Wednesday'', Some ''Thursday'']"
  by (simp add: date_eval)

lemma str_nat_2: "str_nat 2 = ''2''"
  by code_simp


lemma capitalize_samples:
  "capitalize w (ustr ''Wednesday'') = ustr ''Wednesday''"
  "capitalize w (ustr ''WEDNESDAY'') = ustr ''Wednesday''"
  "capitalize w (ustr ''wednesday'') = ustr ''Wednesday''"
  "capitalize w (ustr ''monday'') = ustr ''Monday''"
  "capitalize w (ustr ''Monday'') = ustr ''Monday''"
  "capitalize w (ustr ''MONDAY'') = ustr ''Monday''"
  "capitalize w (ustr ''TUESDAY'') = ustr ''Tuesday''"
  by (simp_all add: code_eval)







lemma count_dates_lines: "count_lines (file_lines dates_txt) (ustr ''Wednesday'') 0 = 2"
  by (simp add: dates_lines dates_first dates_second dates_third del: try_formats.simps)

lemma count_dates:
  "count_weekdays w dates_disk ''dates.txt'' (ustr ''Wednesday'') out = open_write dates_disk out ''2''"
  by (simp add: count_weekdays_def Let_def capitalize_samples open_read_def dates_disk_def
      and_then_def count_dates_lines str_nat_2)

lemma execute_count_args:
  "execute (sample_world count_args) d dates_disk = open_write dates_disk ''out.txt'' ''2''"
  by (simp add: execute_def parse_count_args and_then_def resolve_def handler_map_simps
      input_path_of_def weekday_or_default_def Let_def count_dates)

lemma write_out_dates:
  "open_write dates_disk ''out.txt'' ''2'' = Inr (dates_disk(''out.txt'' \<mapsto> File ''2''))"
  by (simp add: open_write_def dates_disk_def)


lemma parse_today_args:
  "parse_task_description (sample_world today_args) d =
     Inr \<lparr>input_files = [''today.log''], operation = EXTRACT_RECENT_LOGS,
          parameters = \<lparr>weekday = None, script_url = None, llm_instruction = None\<rparr>,
          output_file = ''recent.txt''\<rparr>"
  by (simp add: parse_task_description_def parse_body_sample ParsedTask_of_def today_args_def
      and_then_def OperationType_call_def OperationType_members_def TaskParameters_init_def)

lemma handler_none_run_script: "handler_map m = None \<Longrightarrow> m = RUN_SCRIPT"
  by (cases m) (simp_all add: handler_map_simps)

lemma parse_explicit:
  "parse_task_description (sample_world \<lparr>arg_input_files = Some fs, arg_operation = Some ''format_markdown'',
      arg_parameters = None, arg_output_file = Some ''out.md''\<rparr>) d =
     Inr \<lparr>input_files = fs, operation = FORMAT_MARKDOWN,
          parameters = \<lparr>weekday = None, script_url = None, llm_instruction = None\<rparr>,
          output_file = ''out.md''\<rparr>"
  by (simp add: parse_task_description_def parse_body_sample ParsedTask_of_def
      and_then_def OperationType_call_def OperationType_members_def TaskParameters_init_def)

lemma parse_delete_files:
  "parse_task_description (sample_world (count_args\<lparr>arg_operation := Some ''delete_files''\<rparr>)) d =
     Inl (ValueError ([CHR 0x27] @ ''delete_files'' @ [CHR 0x27] @ '' is not a valid OperationType''))"
  by (simp add: parse_task_description_def parse_body_sample ParsedTask_of_def count_args_def
      and_then_def OperationType_call_def OperationType_members_def repr_plain)

lemma parse_run_script:
  "parse_task_description (sample_world (count_args\<lparr>arg_operation := Some ''run_script''\<rparr>)) d =
     Inr \<lparr>input_files = [''dates.txt''], operation = RUN_SCRIPT,
          parameters = \<lparr>weekday = None, script_url = None, llm_instruction = None\<rparr>,
          output_file = ''out.txt''\<rparr>"
  by (simp add: parse_task_description_def parse_body_sample ParsedTask_of_def count_args_def
      and_then_def OperationType_call_def OperationType_members_def TaskParameters_init_def)

lemma parse_missing_operation:
  "parse_task_description (sample_world (count_args\<lparr>arg_operation := None\<rparr>)) d =
     Inl (RuntimeError (''Malformed API response: '' @ [CHR 0x27] @ ''operation'' @ [CHR 0x27]))"
  by (simp add: parse_task_description_def parse_body_sample ParsedTask_of_def count_args_def
      and_then_def repr_plain)

lemma parse_offline:
  "parse_task_description ((sample_world a)\<lparr>post := \<lambda>d. Inl (RequestException ''Connection refused'')\<rparr>) d =
     Inl (RequestException ''Connection refused'')"
  by (simp add: parse_task_description_def parse_body_def and_then_def)

lemma parse_not_json:
  "parse_task_description
     ((sample_world a)\<lparr>decode := \<lambda>t. Inl (JSONDecodeError ''Expecting value: line 1 column 1 (char 0)'')\<rparr>) d =
     Inl (JSONDecodeError ''Expecting value: line 1 column 1 (char 0)'')"
  by (simp add: parse_task_description_def parse_body_def sample_world_def sample_reply_def
      and_then_def raise_for_status_def response_json_def json_loads_def)

lemma parse_http_error:
  "parse_task_description ((sample_world a)\<lparr>post := \<lambda>d. Inr \<lparr>status_code = 401,
        body_text = ''Unauthorized'', body_json = None\<rparr>\<rparr>) d =
     Inl (RuntimeError ''AI Proxy error: Unauthorized'')"
  by (simp add: parse_task_description_def parse_body_def and_then_def raise_for_status_def)

lemma execute_count_missing:
  "execute (sample_world count_args) d Map.empty =
     Inl (FileNotFoundError (''[Errno 2] No such file or directory: '' @ [CHR 0x27] @ ''dates.txt'' @ [CHR 0x27]))"
  by (simp add: execute_def parse_count_args and_then_def resolve_def handler_map_simps
      input_path_of_def weekday_or_default_def Let_def count_weekdays_def open_read_def repr_plain)

lemma out_path_id1: "path_join RESULTS_DIR (''id1'' @ ''.out'') = ''./task_results/id1.out''"
  by (simp add: path_join_def RESULTS_DIR_def)

lemma background_body_raises:
  "background_body =
     Inl (AttributeError ([CHR 0x27] @ ''TaskExecutor'' @ [CHR 0x27] @ '' object has no attribute ''
            @ [CHR 0x27] @ ''execute_parsed'' @ [CHR 0x27]))"
  by (simp add: background_body_def getattr_executor_def TaskExecutor_attributes_def and_then_def
      repr_plain)

lemma handle_count_dates:
  "handle_task (sample_world count_args) ''id1'' d \<lparr>disk = dates_disk, task_manager = Map.empty\<rparr> =
     (Reply 202 (task_id_json ''id1''),
      \<lparr>disk = dates_disk(''out.txt'' \<mapsto> File ''2''),
       task_manager = create_task Map.empty ''id1'' ''./task_results/id1.out''\<rparr>,
      Some ''id1'')"
  by (simp add: handle_task_def sample_world_init execute_count_args write_out_dates out_path_id1
      del: append.simps)

lemma resolve_run_script:
  "resolve \<lparr>input_files = [''dates.txt''], operation = RUN_SCRIPT,
          parameters = \<lparr>weekday = None, script_url = None, llm_instruction = None\<rparr>,
          output_file = ''out.txt''\<rparr> = Inl (ValueError ''Unsupported operation: OperationType.RUN_SCRIPT'')"
  by (simp add: resolve_def handler_map_simps)

lemma parse_logs_args:
  "parse_task_description (sample_world logs_args) d =
     Inr \<lparr>input_files = [''/var/log/app/today.log''], operation = EXTRACT_RECENT_LOGS,
          parameters = \<lparr>weekday = None, script_url = None, llm_instruction = None\<rparr>,
          output_file = ''recent.txt''\<rparr>"
  by (simp add: parse_task_description_def parse_body_sample ParsedTask_of_def logs_args_def
      and_then_def OperationType_call_def OperationType_members_def TaskParameters_init_def)

lemma dirname_samples:
  "dirname ''/var/log/app/today.log'' = ''/var/log/app''"
  "dirname ''/data/docs'' = ''/data''"
  "dirname ''docs'' = []"
  "dirname ''today.log'' = []"
  by (simp_all add: dirname_def)

lemma run_handler_sample: "run_handler (sample_world a) h i out files = open_write files out []"
  by (simp add: sample_world_def)

lemma execute_today:
  "execute (sample_world today_args) d Map.empty = Inr [''recent.txt'' \<mapsto> File []]"
  by (simp add: execute_def parse_today_args and_then_def resolve_def handler_map_simps
      input_path_of_def dirname_samples run_handler_sample open_write_def Let_def)

lemma handle_today:
  "handle_task (sample_world today_args) ''id1'' d empty_server =
     (Reply 202 (task_id_json ''id1''),
      \<lparr>disk = [''recent.txt'' \<mapsto> File []],
       task_manager = create_task Map.empty ''id1'' ''./task_results/id1.out''\<rparr>,
      Some ''id1'')"
  by (simp add: handle_task_def sample_world_init empty_server_def execute_today out_path_id1
      del: append.simps)

lemma read_file_with_path:
  assumes "p \<noteq> []"
  shows "\<exists>n b. read_file files (Some p) = (Reply n b, [p]) \<and> n \<in> {200, 404, 500}"
proof (cases "open_read files p")
  case (Inl e)
  with assms show ?thesis by (cases e) (simp_all add: read_file_def)
next
  case (Inr content)
  with assms show ?thesis by (simp add: read_file_def)
qed

section \<open>The claims\<close>

text \<open>
  C1. The claim: the request path of \<^verbatim>\<open>POST /tasks\<close> only parses and validates, and the handler
  runs in the background unit, which records \<^verbatim>\<open>completed\<close> on its normal return and
  \<^verbatim>\<open>error\<close> with the message otherwise, so that a failure of the handler is found on the
  record and never in the reply. The code at one description, parsed as a weekday count
  over \<^verbatim>\<open>dates.txt\<close>: when the file is missing, the handler's \<open>FileNotFoundError\<close> comes back
  in the reply, with status 400, and no record is created; when the file is there, the
  handler has written the output before the reply 202 is sent, and the background unit,
  which calls a method that \<^verbatim>\<open>TaskExecutor\<close> does not have, sets the record to \<^verbatim>\<open>error\<close>.
\<close>

theorem handler_runs_in_request_not_in_background:
  "handle_task (sample_world count_args) ''id1'' (Some ''count the Wednesdays in dates.txt'') empty_server =
     (Reply 400 (error_json (''[Errno 2] No such file or directory: '' @ [CHR 0x27] @ ''dates.txt'' @ [CHR 0x27])),
      empty_server, None)
   \<and> handle_task (sample_world count_args) ''id1'' (Some ''count the Wednesdays in dates.txt'')
       \<lparr>disk = dates_disk, task_manager = Map.empty\<rparr> =
     (Reply 202 (task_id_json ''id1''),
      \<lparr>disk = dates_disk(''out.txt'' \<mapsto> File ''2''),
       task_manager = create_task Map.empty ''id1'' ''./task_results/id1.out''\<rparr>,
      Some ''id1'')
   \<and> get_task (task_manager (after_thread
        (handle_task (sample_world count_args) ''id1'' (Some ''count the Wednesdays in dates.txt'')
          \<lparr>disk = dates_disk, task_manager = Map.empty\<rparr>))) ''id1'' =
     Some \<lparr>status = ''error'', output_path = ''./task_results/id1.out'',
           error = Some ([CHR 0x27] @ ''TaskExecutor'' @ [CHR 0x27] @ '' object has no attribute ''
                          @ [CHR 0x27] @ ''execute_parsed'' @ [CHR 0x27])\<rparr>"
proof -
  have a: "handle_task (sample_world count_args) ''id1'' (Some ''count the Wednesdays in dates.txt'') empty_server =
     (Reply 400 (error_json (''[Errno 2] No such file or directory: '' @ [CHR 0x27] @ ''dates.txt'' @ [CHR 0x27])),
      empty_server, None)"
    using handle_task_rejects [OF sample_world_init, of count_args _ empty_server _ "''id1''"]
      execute_count_missing
    by (simp add: empty_server_def)
  have c: "get_task (task_manager (after_thread
        (handle_task (sample_world count_args) ''id1'' (Some ''count the Wednesdays in dates.txt'')
          \<lparr>disk = dates_disk, task_manager = Map.empty\<rparr>))) ''id1'' =
     Some \<lparr>status = ''error'', output_path = ''./task_results/id1.out'',
           error = Some ([CHR 0x27] @ ''TaskExecutor'' @ [CHR 0x27] @ '' object has no attribute ''
                          @ [CHR 0x27] @ ''execute_parsed'' @ [CHR 0x27])\<rparr>"
    unfolding handle_count_dates
    by (simp add: after_thread_def background_task_def background_body_raises update_task_def
        create_task_def get_task_def)
  from a handle_count_dates c show ?thesis by blast
qed

text \<open>
  C2. The claim: the parser returns a task whose operation is in the enumeration, or
  raises one of two error kinds, one for a failed upstream call and one for a malformed
  payload, and lets no other exception through. The code turns an HTTP error status and
  a missing key into a \<open>RuntimeError\<close> (the last two facts below), but an operation outside
  the enumeration leaves the parser as the \<open>ValueError\<close> of the enumeration's constructor,
  a failed connection as the exception of the HTTP library, and an arguments text that
  is not JSON as the decoder's \<open>JSONDecodeError\<close> (the first three).
\<close>

theorem parser_lets_raw_exceptions_through:
  "parse_task_description (sample_world (count_args\<lparr>arg_operation := Some ''delete_files''\<rparr>))
       (Some ''delete all files'') =
     Inl (ValueError ([CHR 0x27] @ ''delete_files'' @ [CHR 0x27] @ '' is not a valid OperationType''))
   \<and> parse_task_description
       ((sample_world count_args)\<lparr>post := \<lambda>d. Inl (RequestException ''Connection refused'')\<rparr>)
       (Some ''count the Wednesdays'') =
     Inl (RequestException ''Connection refused'')
   \<and> parse_task_description
       ((sample_world count_args)\<lparr>decode := \<lambda>t. Inl (JSONDecodeError ''Expecting value: line 1 column 1 (char 0)'')\<rparr>)
       (Some ''count the Wednesdays'') =
     Inl (JSONDecodeError ''Expecting value: line 1 column 1 (char 0)'')
   \<and> parse_task_description (sample_world (count_args\<lparr>arg_operation := None\<rparr>))
       (Some ''count the Wednesdays'') =
     Inl (RuntimeError (''Malformed API response: '' @ [CHR 0x27] @ ''operation'' @ [CHR 0x27]))
   \<and> parse_task_description
       ((sample_world count_args)\<lparr>post := \<lambda>d. Inr \<lparr>status_code = 401,
          body_text = ''Unauthorized'', body_json = None\<rparr>\<rparr>)
       (Some ''count the Wednesdays'') =
     Inl (RuntimeError ''AI Proxy error: Unauthorized'')"
  by (simp only: parse_delete_files parse_offline parse_not_json parse_missing_operation
      parse_http_error simp_thms)

text \<open>
  C3, amended. A record is created in the state \<^verbatim>\<open>pending\<close>; an update on an unknown task
  identifier changes nothing; an update on a known identifier sets the status and the error
  to the values given, whatever the status was, and leaves every other record alone; the
  background unit of a task performs one update, to \<^verbatim>\<open>completed\<close> or to \<^verbatim>\<open>error\<close>.
\<close>

theorem update_task_overwrites:
  "get_task (create_task tasks tid out) tid = Some \<lparr>status = ''pending'', output_path = out, error = None\<rparr>
   \<and> (get_task tasks tid = None \<longrightarrow> update_task tasks tid st err = tasks)
   \<and> (get_task tasks tid = Some r \<longrightarrow>
        get_task (update_task tasks tid st err) tid = Some (r\<lparr>status := st, error := err\<rparr>))
   \<and> (tid' \<noteq> tid \<longrightarrow> get_task (update_task tasks tid st err) tid' = get_task tasks tid')
   \<and> (\<exists>st' err'. st' \<in> set [''completed'', ''error'']
        \<and> background_task tid tasks = update_task tasks tid st' err')"
  by (auto simp: get_task_def create_task_def update_task_def background_task_def
      split: sum.splits option.splits)

theorem update_task_overwrites_witness:
  "get_task Map.empty ''t0'' = None
   \<and> update_task Map.empty ''t0'' ''completed'' None = Map.empty
   \<and> get_task (create_task Map.empty ''t1'' ''o'') ''t1''
       = Some \<lparr>status = ''pending'', output_path = ''o'', error = None\<rparr>
   \<and> get_task (update_task (create_task Map.empty ''t1'' ''o'') ''t1'' ''completed'' None) ''t1''
       = Some \<lparr>status = ''completed'', output_path = ''o'', error = None\<rparr>
   \<and> ''t0'' \<noteq> ''t1''
   \<and> get_task (update_task (create_task Map.empty ''t1'' ''o'') ''t1'' ''completed'' None) ''t0'' = None"
  using update_task_overwrites [of Map.empty "''t0''" "''o''" "''completed''" None
      "\<lparr>status = ''pending'', output_path = ''o'', error = None\<rparr>" "''t1''"]
    update_task_overwrites [of "create_task Map.empty ''t1'' ''o''" "''t1''" "''o''" "''completed''" None
      "\<lparr>status = ''pending'', output_path = ''o'', error = None\<rparr>" "''t0''"]
  by (simp add: get_task_def create_task_def)

text \<open>
  C3 as stated fails: a record that is already \<^verbatim>\<open>completed\<close> is overwritten by a further
  update.
\<close>

theorem terminal_record_overwritten:
  "get_task (update_task (create_task Map.empty ''t1'' ''o'') ''t1'' ''completed'' None) ''t1''
     = Some \<lparr>status = ''completed'', output_path = ''o'', error = None\<rparr>
   \<and> get_task (update_task (update_task (create_task Map.empty ''t1'' ''o'') ''t1'' ''completed'' None)
        ''t1'' ''error'' (Some ''late'')) ''t1''
     = Some \<lparr>status = ''error'', output_path = ''o'', error = Some ''late''\<rparr>"
  by (simp add: get_task_def create_task_def update_task_def)

text \<open>
  C4, amended. Every member of the enumeration other than \<^verbatim>\<open>run_script\<close> has a handler in
  the handler table and a non-empty default path in the default-path table; a task whose
  operation is \<^verbatim>\<open>run_script\<close> is rejected by dispatch as an unsupported operation.
\<close>

theorem tables_cover_all_but_run_script:
  "(m \<in> set OperationType_members \<and> m \<noteq> RUN_SCRIPT \<longrightarrow>
      (\<exists>h d. handler_map m = Some h \<and> task_data_dirs m = Some d \<and> d \<noteq> []))
   \<and> (operation p = RUN_SCRIPT \<longrightarrow>
      resolve p = Inl (ValueError ''Unsupported operation: OperationType.RUN_SCRIPT''))"
  by (cases m) (simp_all add: handler_map_simps task_data_dirs_simps resolve_def)

theorem tables_cover_all_but_run_script_witness:
  "FORMAT_MARKDOWN \<in> set OperationType_members \<and> FORMAT_MARKDOWN \<noteq> RUN_SCRIPT
   \<and> handler_map FORMAT_MARKDOWN = Some self_format_markdown
   \<and> task_data_dirs FORMAT_MARKDOWN = Some ''./data/docs/agent/director.md''
   \<and> operation \<lparr>input_files = [''run.py''], operation = RUN_SCRIPT,
        parameters = \<lparr>weekday = None, script_url = None, llm_instruction = None\<rparr>,
        output_file = ''out.txt''\<rparr> = RUN_SCRIPT
   \<and> resolve \<lparr>input_files = [''run.py''], operation = RUN_SCRIPT,
        parameters = \<lparr>weekday = None, script_url = None, llm_instruction = None\<rparr>,
        output_file = ''out.txt''\<rparr>
      = Inl (ValueError ''Unsupported operation: OperationType.RUN_SCRIPT'')"
  using tables_cover_all_but_run_script [of FORMAT_MARKDOWN
      "\<lparr>input_files = [''run.py''], operation = RUN_SCRIPT,
        parameters = \<lparr>weekday = None, script_url = None, llm_instruction = None\<rparr>,
        output_file = ''out.txt''\<rparr>"]
  by (simp add: OperationType_members_def handler_map_simps task_data_dirs_simps)

text \<open>
  C4 as stated fails: \<^verbatim>\<open>run_script\<close> is a member of the enumeration, the parser accepts
  it, and neither table has an entry for it.
\<close>

theorem run_script_has_no_handler:
  "RUN_SCRIPT \<in> set OperationType_members \<and> OperationType_call ''run_script'' = Inr RUN_SCRIPT
   \<and> handler_map RUN_SCRIPT = None \<and> task_data_dirs RUN_SCRIPT = None"
  by (simp add: OperationType_members_def OperationType_call_def handler_map_simps task_data_dirs_simps)

text \<open>
  C5, amended. For every parsed task: when the operation has no handler, which is the
  case of \<^verbatim>\<open>run_script\<close> only, dispatch fails as an unsupported operation whatever the
  input files are. Otherwise the input path is the first element of \<^verbatim>\<open>input_files\<close> when
  there is one and the configured default of the operation when there is none (it exists
  and is not empty); when that path is empty dispatch fails with the error
  \<^verbatim>\<open>No valid input path found\<close>; when it is not empty dispatch succeeds and the handler
  receives that path, or its directory name for log extraction and markdown indexing,
  which is not checked again and may be empty. Every failure of dispatch is answered with
  status 400, leaves the server as it was and starts no background thread.
\<close>

theorem dispatch_input_path:
  "(handler_map (operation p) = None \<longrightarrow>
      operation p = RUN_SCRIPT
      \<and> resolve p = Inl (ValueError (''Unsupported operation: '' @ op_str (operation p))))
   \<and> (handler_map (operation p) = Some h \<longrightarrow>
      (input_files p = x # xs \<longrightarrow> input_path_of p = x)
      \<and> (input_files p = [] \<longrightarrow>
           (\<exists>d. task_data_dirs (operation p) = Some d \<and> d \<noteq> [] \<and> input_path_of p = d))
      \<and> (input_path_of p = [] \<longrightarrow>
           resolve p = Inl (ValueError (''No valid input path found for operation: '' @ op_str (operation p))))
      \<and> (input_path_of p \<noteq> [] \<longrightarrow>
           (\<exists>c. resolve p = Inr c \<and> call_handler c = h
                \<and> call_input c =
                    (if operation p \<in> {EXTRACT_RECENT_LOGS, CREATE_MARKDOWN_INDEX}
                     then dirname (input_path_of p) else input_path_of p))))
   \<and> (TaskExecutor_init w = Inr tok \<and> parse_task_description w d = Inr p \<and> resolve p = Inl e \<longrightarrow>
        handle_task w tid d s = (Reply 400 (error_json (str_exn e)), s, None))"
proof -
  have c0: "handler_map (operation p) = None \<longrightarrow>
      operation p = RUN_SCRIPT
      \<and> resolve p = Inl (ValueError (''Unsupported operation: '' @ op_str (operation p)))"
    using handler_none_run_script [of "operation p"] by (simp add: resolve_def)
  have c1: "input_files p = x # xs \<longrightarrow> input_path_of p = x"
    by (simp add: input_path_of_def)
  have c2: "input_files p = [] \<longrightarrow>
        (\<exists>d. task_data_dirs (operation p) = Some d \<and> d \<noteq> [] \<and> input_path_of p = d)"
    if "handler_map (operation p) = Some h"
    using handler_has_default [OF that] by (auto simp: input_path_of_def)
  have c3: "input_path_of p = [] \<longrightarrow>
        resolve p = Inl (ValueError (''No valid input path found for operation: '' @ op_str (operation p)))"
    if "handler_map (operation p) = Some h"
    by (simp add: resolve_registered [OF that])
  have c4: "input_path_of p \<noteq> [] \<longrightarrow>
        (\<exists>c. resolve p = Inr c \<and> call_handler c = h
             \<and> call_input c =
                 (if operation p \<in> {EXTRACT_RECENT_LOGS, CREATE_MARKDOWN_INDEX}
                  then dirname (input_path_of p) else input_path_of p))"
    if "handler_map (operation p) = Some h"
    by (auto simp: resolve_registered [OF that])
  have c5: "handle_task w tid d s = (Reply 400 (error_json (str_exn e)), s, None)"
    if "TaskExecutor_init w = Inr tok" "parse_task_description w d = Inr p" "resolve p = Inl e"
    using handle_task_rejects [OF that(1) execute_resolve_fails [OF that(2) that(3)]] .
  from c0 c1 c2 c3 c4 c5 show ?thesis by blast
qed

theorem dispatch_input_path_witness:
  "handler_map RUN_SCRIPT = None
   \<and> resolve \<lparr>input_files = [''run.py''], operation = RUN_SCRIPT,
          parameters = \<lparr>weekday = None, script_url = None, llm_instruction = None\<rparr>,
          output_file = ''out.txt''\<rparr> = Inl (ValueError ''Unsupported operation: OperationType.RUN_SCRIPT'')
   \<and> handler_map FORMAT_MARKDOWN = Some self_format_markdown
   \<and> input_path_of \<lparr>input_files = [''notes.md'', ''other.md''], operation = FORMAT_MARKDOWN,
          parameters = \<lparr>weekday = None, script_url = None, llm_instruction = None\<rparr>,
          output_file = ''out.md''\<rparr> = ''notes.md''
   \<and> resolve \<lparr>input_files = [''notes.md'', ''other.md''], operation = FORMAT_MARKDOWN,
          parameters = \<lparr>weekday = None, script_url = None, llm_instruction = None\<rparr>,
          output_file = ''out.md''\<rparr> = Inr (Call2 self_format_markdown ''notes.md'' ''out.md'')
   \<and> input_path_of \<lparr>input_files = [], operation = FORMAT_MARKDOWN,
          parameters = \<lparr>weekday = None, script_url = None, llm_instruction = None\<rparr>,
          output_file = ''out.md''\<rparr> = ''./data/docs/agent/director.md''
   \<and> input_path_of \<lparr>input_files = [[]], operation = FORMAT_MARKDOWN,
          parameters = \<lparr>weekday = None, script_url = None, llm_instruction = None\<rparr>,
          output_file = ''out.md''\<rparr> = []
   \<and> resolve \<lparr>input_files = [[]], operation = FORMAT_MARKDOWN,
          parameters = \<lparr>weekday = None, script_url = None, llm_instruction = None\<rparr>,
          output_file = ''out.md''\<rparr>
       = Inl (ValueError ''No valid input path found for operation: OperationType.FORMAT_MARKDOWN'')
   \<and> handle_task (sample_world \<lparr>arg_input_files = Some [[]], arg_operation = Some ''format_markdown'',
          arg_parameters = None, arg_output_file = Some ''out.md''\<rparr>) ''id1'' (Some ''format it'') empty_server
       = (Reply 400 (error_json ''No valid input path found for operation: OperationType.FORMAT_MARKDOWN''),
          empty_server, None)
   \<and> handler_map EXTRACT_RECENT_LOGS = Some self_extract_recent_logs
   \<and> input_path_of \<lparr>input_files = [''today.log''], operation = EXTRACT_RECENT_LOGS,
          parameters = \<lparr>weekday = None, script_url = None, llm_instruction = None\<rparr>,
          output_file = ''recent.txt''\<rparr> = ''today.log''
   \<and> (\<exists>c. resolve \<lparr>input_files = [''today.log''], operation = EXTRACT_RECENT_LOGS,
          parameters = \<lparr>weekday = None, script_url = None, llm_instruction = None\<rparr>,
          output_file = ''recent.txt''\<rparr> = Inr c \<and> call_handler c = self_extract_recent_logs \<and> call_input c = [])"
  using dispatch_input_path [of "\<lparr>input_files = [''run.py''], operation = RUN_SCRIPT,
          parameters = \<lparr>weekday = None, script_url = None, llm_instruction = None\<rparr>,
          output_file = ''out.txt''\<rparr>"]
    dispatch_input_path [of "\<lparr>input_files = [''notes.md'', ''other.md''], operation = FORMAT_MARKDOWN,
          parameters = \<lparr>weekday = None, script_url = None, llm_instruction = None\<rparr>,
          output_file = ''out.md''\<rparr>" self_format_markdown "''notes.md''" "[''other.md'']"]
    dispatch_input_path [of "\<lparr>input_files = [], operation = FORMAT_MARKDOWN,
          parameters = \<lparr>weekday = None, script_url = None, llm_instruction = None\<rparr>,
          output_file = ''out.md''\<rparr>" self_format_markdown]
    dispatch_input_path [of "\<lparr>input_files = [[]], operation = FORMAT_MARKDOWN,
          parameters = \<lparr>weekday = None, script_url = None, llm_instruction = None\<rparr>,
          output_file = ''out.md''\<rparr>" self_format_markdown "[]" "[]"
          "sample_world \<lparr>arg_input_files = Some [[]], arg_operation = Some ''format_markdown'',
          arg_parameters = None, arg_output_file = Some ''out.md''\<rparr>" "''token''" "Some ''format it''"
          "ValueError ''No valid input path found for operation: OperationType.FORMAT_MARKDOWN''"
          "''id1''" empty_server]
    dispatch_input_path [of "\<lparr>input_files = [''today.log''], operation = EXTRACT_RECENT_LOGS,
          parameters = \<lparr>weekday = None, script_url = None, llm_instruction = None\<rparr>,
          output_file = ''recent.txt''\<rparr>" self_extract_recent_logs "''today.log''" "[]"]
  by (simp add: handler_map_simps task_data_dirs_simps sample_world_init parse_explicit
      input_path_of_def dirname_samples resolve_def)

text \<open>
  C5 as stated fails. For log extraction with the input file \<^verbatim>\<open>today.log\<close> the path is
  reduced to its directory name, which is empty; dispatch does not fail, the handler is
  called with the empty path and the request is answered with status 202 and a task
  identifier. And a \<^verbatim>\<open>run_script\<close> task whose first input file is the empty string fails
  as an unsupported operation, not for its input path.
\<close>

theorem empty_directory_name_is_dispatched:
  "input_path_of \<lparr>input_files = [''today.log''], operation = EXTRACT_RECENT_LOGS,
          parameters = \<lparr>weekday = None, script_url = None, llm_instruction = None\<rparr>,
          output_file = ''recent.txt''\<rparr> = ''today.log''
   \<and> dirname ''today.log'' = []
   \<and> resolve \<lparr>input_files = [''today.log''], operation = EXTRACT_RECENT_LOGS,
          parameters = \<lparr>weekday = None, script_url = None, llm_instruction = None\<rparr>,
          output_file = ''recent.txt''\<rparr> = Inr (Call2 self_extract_recent_logs [] ''recent.txt'')
   \<and> handle_task (sample_world today_args) ''id1'' (Some ''collect the recent logs'') empty_server
       = (Reply 202 (task_id_json ''id1''),
          \<lparr>disk = [''recent.txt'' \<mapsto> File []],
           task_manager = create_task Map.empty ''id1'' ''./task_results/id1.out''\<rparr>,
          Some ''id1'')
   \<and> resolve \<lparr>input_files = [[]], operation = RUN_SCRIPT,
          parameters = \<lparr>weekday = None, script_url = None, llm_instruction = None\<rparr>,
          output_file = ''out.txt''\<rparr> = Inl (ValueError ''Unsupported operation: OperationType.RUN_SCRIPT'')"
  unfolding handle_today
  by (simp add: input_path_of_def dirname_samples resolve_def handler_map_simps)

text \<open>
  C6. For log extraction and markdown indexing the handler receives the directory name of
  the input path, and for the other operations the input path itself. Markdown indexing
  without an explicit input file takes the default \<^verbatim>\<open>/data/docs\<close> and hands \<^verbatim>\<open>/data\<close> to
  the handler. Dispatch raises exactly when the input path itself is empty, whatever its
  directory name is.
\<close>

theorem directory_reduction:
  assumes "handler_map (operation p) = Some h"
  shows "(operation p \<in> {EXTRACT_RECENT_LOGS, CREATE_MARKDOWN_INDEX} \<and> input_path_of p \<noteq> [] \<longrightarrow>
        resolve p = Inr (Call2 h (dirname (input_path_of p)) (output_file p))
        \<and> (parse_task_description w d = Inr p \<longrightarrow>
             execute w d files = run_handler w h (dirname (input_path_of p)) (output_file p) files))
   \<and> (operation p \<notin> {EXTRACT_RECENT_LOGS, CREATE_MARKDOWN_INDEX} \<and> input_path_of p \<noteq> [] \<longrightarrow>
        (\<exists>c. resolve p = Inr c \<and> call_input c = input_path_of p))
   \<and> (operation p = CREATE_MARKDOWN_INDEX \<and> input_files p = [] \<longrightarrow>
        input_path_of p = ''/data/docs''
        \<and> resolve p = Inr (Call2 self_create_markdown_index ''/data'' (output_file p)))
   \<and> ((\<exists>m. resolve p = Inl (ValueError m)) = (input_path_of p = []))"
proof -
  have h: "operation p \<in> {EXTRACT_RECENT_LOGS, CREATE_MARKDOWN_INDEX} \<Longrightarrow> h \<noteq> self_count_weekdays"
    using assms by (auto simp: handler_map_simps)
  have c1: "operation p \<in> {EXTRACT_RECENT_LOGS, CREATE_MARKDOWN_INDEX} \<and> input_path_of p \<noteq> [] \<longrightarrow>
        resolve p = Inr (Call2 h (dirname (input_path_of p)) (output_file p))"
    by (auto simp: resolve_registered [OF assms])
  have c1': "operation p \<in> {EXTRACT_RECENT_LOGS, CREATE_MARKDOWN_INDEX} \<and> input_path_of p \<noteq> [] \<longrightarrow>
        (parse_task_description w d = Inr p \<longrightarrow>
             execute w d files = run_handler w h (dirname (input_path_of p)) (output_file p) files)"
    using c1 h by (auto simp: execute_def and_then_def)
  have c2: "operation p \<notin> {EXTRACT_RECENT_LOGS, CREATE_MARKDOWN_INDEX} \<and> input_path_of p \<noteq> [] \<longrightarrow>
        (\<exists>c. resolve p = Inr c \<and> call_input c = input_path_of p)"
    by (auto simp: resolve_registered [OF assms])
  have d: "dirname ''/data/docs'' = ''/data''"
    by (simp add: dirname_def)
  have c3: "operation p = CREATE_MARKDOWN_INDEX \<and> input_files p = [] \<longrightarrow>
        input_path_of p = ''/data/docs''
        \<and> resolve p = Inr (Call2 self_create_markdown_index ''/data'' (output_file p))"
    using assms d by (auto simp: resolve_registered [OF assms] input_path_of_def task_data_dirs_simps handler_map_simps)
  have c4: "(\<exists>m. resolve p = Inl (ValueError m)) = (input_path_of p = [])"
    by (auto simp: resolve_registered [OF assms])
  from c1 c1' c2 c3 c4 show ?thesis by blast
qed

theorem directory_reduction_witness:
  "resolve \<lparr>input_files = [''/var/log/app/today.log''], operation = EXTRACT_RECENT_LOGS,
          parameters = \<lparr>weekday = None, script_url = None, llm_instruction = None\<rparr>,
          output_file = ''recent.txt''\<rparr>
     = Inr (Call2 self_extract_recent_logs ''/var/log/app'' ''recent.txt'')
   \<and> execute (sample_world logs_args) (Some ''collect the recent logs'') Map.empty
     = run_handler (sample_world logs_args) self_extract_recent_logs ''/var/log/app'' ''recent.txt'' Map.empty
   \<and> resolve \<lparr>input_files = [], operation = CREATE_MARKDOWN_INDEX,
          parameters = \<lparr>weekday = None, script_url = None, llm_instruction = None\<rparr>,
          output_file = ''index.md''\<rparr>
     = Inr (Call2 self_create_markdown_index ''/data'' ''index.md'')
   \<and> resolve \<lparr>input_files = [''docs''], operation = CREATE_MARKDOWN_INDEX,
          parameters = \<lparr>weekday = None, script_url = None, llm_instruction = None\<rparr>,
          output_file = ''index.md''\<rparr>
     = Inr (Call2 self_create_markdown_index [] ''index.md'')
   \<and> (\<exists>c. resolve \<lparr>input_files = [''notes/a.md''], operation = FORMAT_MARKDOWN,
          parameters = \<lparr>weekday = None, script_url = None, llm_instruction = None\<rparr>,
          output_file = ''out.md''\<rparr> = Inr c \<and> call_input c = ''notes/a.md'')
   \<and> (\<exists>m. resolve \<lparr>input_files = [[]], operation = CREATE_MARKDOWN_INDEX,
          parameters = \<lparr>weekday = None, script_url = None, llm_instruction = None\<rparr>,
          output_file = ''index.md''\<rparr> = Inl (ValueError m))"
  using directory_reduction [of "\<lparr>input_files = [''/var/log/app/today.log''], operation = EXTRACT_RECENT_LOGS,
          parameters = \<lparr>weekday = None, script_url = None, llm_instruction = None\<rparr>,
          output_file = ''recent.txt''\<rparr>" self_extract_recent_logs "sample_world logs_args"
          "Some ''collect the recent logs''" Map.empty]
    directory_reduction [of "\<lparr>input_files = [], operation = CREATE_MARKDOWN_INDEX,
          parameters = \<lparr>weekday = None, script_url = None, llm_instruction = None\<rparr>,
          output_file = ''index.md''\<rparr>" self_create_markdown_index]
    directory_reduction [of "\<lparr>input_files = [''docs''], operation = CREATE_MARKDOWN_INDEX,
          parameters = \<lparr>weekday = None, script_url = None, llm_instruction = None\<rparr>,
          output_file = ''index.md''\<rparr>" self_create_markdown_index]
    directory_reduction [of "\<lparr>input_files = [''notes/a.md''], operation = FORMAT_MARKDOWN,
          parameters = \<lparr>weekday = None, script_url = None, llm_instruction = None\<rparr>,
          output_file = ''out.md''\<rparr>" self_format_markdown]
    directory_reduction [of "\<lparr>input_files = [[]], operation = CREATE_MARKDOWN_INDEX,
          parameters = \<lparr>weekday = None, script_url = None, llm_instruction = None\<rparr>,
          output_file = ''index.md''\<rparr>" self_create_markdown_index]
  by (simp add: handler_map_simps input_path_of_def parse_logs_args dirname_samples)




text \<open>
  C8. When the executor has been created and the parser or the dispatch raises, the request
  is answered with status 400 and the message of the exception, the server (its task
  registry and its files) is as before, and no background thread is started, so no task
  identifier is handed out.
\<close>

theorem failed_validation_leaves_registry:
  assumes "TaskExecutor_init w = Inr tok"
    and "parse_task_description w d = Inl e \<or> (\<exists>p. parse_task_description w d = Inr p \<and> resolve p = Inl e)"
  shows "handle_task w tid d s = (Reply 400 (error_json (str_exn e)), s, None)
         \<and> after_thread (handle_task w tid d s) = s"
proof -
  from assms(2) have "execute w d (disk s) = Inl e"
    using execute_parse_fails execute_resolve_fails by blast
  from handle_task_rejects [OF assms(1) this] show ?thesis
    by (simp add: after_thread_def)
qed

theorem failed_validation_leaves_registry_witness:
  "TaskExecutor_init (sample_world (count_args\<lparr>arg_operation := Some ''delete_files''\<rparr>)) = Inr ''token''
   \<and> handle_task (sample_world (count_args\<lparr>arg_operation := Some ''delete_files''\<rparr>)) ''id1''
        (Some ''delete all files'') \<lparr>disk = dates_disk, task_manager = Map.empty\<rparr>
       = (Reply 400 (error_json ([CHR 0x27] @ ''delete_files'' @ [CHR 0x27] @ '' is not a valid OperationType'')),
          \<lparr>disk = dates_disk, task_manager = Map.empty\<rparr>, None)
   \<and> handle_task (sample_world (count_args\<lparr>arg_operation := Some ''run_script''\<rparr>)) ''id2''
        (Some ''run the script'') \<lparr>disk = dates_disk, task_manager = Map.empty\<rparr>
       = (Reply 400 (error_json ''Unsupported operation: OperationType.RUN_SCRIPT''),
          \<lparr>disk = dates_disk, task_manager = Map.empty\<rparr>, None)"
  using failed_validation_leaves_registry [of "sample_world (count_args\<lparr>arg_operation := Some ''delete_files''\<rparr>)"
      "''token''" "Some ''delete all files''"
      "ValueError ([CHR 0x27] @ ''delete_files'' @ [CHR 0x27] @ '' is not a valid OperationType'')"
      "''id1''" "\<lparr>disk = dates_disk, task_manager = Map.empty\<rparr>"]
    failed_validation_leaves_registry [of "sample_world (count_args\<lparr>arg_operation := Some ''run_script''\<rparr>)"
      "''token''" "Some ''run the script''"
      "ValueError ''Unsupported operation: OperationType.RUN_SCRIPT''"
      "''id2''" "\<lparr>disk = dates_disk, task_manager = Map.empty\<rparr>"]
  by (simp add: sample_world_init parse_delete_files parse_run_script resolve_run_script)

text \<open>
  C9. The input file holds the three lines 2024-01-03, 2024-01-10 and 2024-01-11, which
  are a Wednesday, a Wednesday and a Thursday. Counting
  Wednesdays writes the string \<^verbatim>\<open>2\<close> to the output file, both when the handler is called
  directly and when \<^verbatim>\<open>execute\<close> runs a description that is parsed as a weekday count over
  this file with no weekday parameter.
\<close>

theorem count_wednesdays_scenario:
  "file_lines dates_txt = [''2024-01-03\<newline>'', ''2024-01-10\<newline>'', ''2024-01-11\<newline>'']
   \<and> map (\<lambda>l. map_option strftime_A (strptime (strip l) ''%Y-%m-%d'')) (file_lines dates_txt) =
       [Some ''Wednesday'', Some ''Wednesday'', Some ''Thursday'']
   \<and> (case count_weekdays w dates_disk ''dates.txt'' (ustr ''Wednesday'') ''out.txt'' of
         Inl e \<Rightarrow> None | Inr files' \<Rightarrow> files' ''out.txt'') = Some (File ''2'')
   \<and> (case execute (sample_world count_args) (Some ''count Wednesdays in dates.txt, write to out.txt'') dates_disk of
         Inl e \<Rightarrow> None | Inr files' \<Rightarrow> files' ''out.txt'') = Some (File ''2'')"
  unfolding count_dates execute_count_args write_out_dates dates_lines dates_weekdays
  by simp

text \<open>
  C10. When the query string of \<^verbatim>\<open>GET /read\<close> has no \<^verbatim>\<open>path\<close>, or an empty one, the reply
  has status 400 and the message \<^verbatim>\<open>Missing 'path' parameter\<close>, and no file is opened. The
  other replies are 200 with the content, 404 for a file that is not there and 500 for
  any other failure of opening it.
\<close>

theorem read_file_missing_path:
  "(file_path = None \<or> file_path = Some [] \<longrightarrow>
      read_file files file_path =
        (Reply 400 (error_json (''Missing '' @ [CHR 0x27] @ ''path'' @ [CHR 0x27] @ '' parameter'')), []))
   \<and> ((\<exists>b. fst (read_file files file_path) = Reply 400 b) \<longrightarrow>
        file_path = None \<or> file_path = Some [])
   \<and> (file_path = Some p \<and> p \<noteq> [] \<longrightarrow> snd (read_file files file_path) = [p])"
proof -
  have c1: "file_path = None \<or> file_path = Some [] \<longrightarrow>
      read_file files file_path =
        (Reply 400 (error_json (''Missing '' @ [CHR 0x27] @ ''path'' @ [CHR 0x27] @ '' parameter'')), [])"
    by (auto simp: read_file_def repr_plain)
  have c2: "(\<exists>b. fst (read_file files file_path) = Reply 400 b) \<longrightarrow>
        file_path = None \<or> file_path = Some []"
  proof (cases file_path)
    case None
    then show ?thesis by simp
  next
    case (Some q)
    show ?thesis
    proof (cases "q = []")
      case True
      with Some show ?thesis by simp
    next
      case False
      from read_file_with_path [OF False, of files] Some show ?thesis by auto
    qed
  qed
  have c3: "file_path = Some p \<and> p \<noteq> [] \<longrightarrow> snd (read_file files file_path) = [p]"
    using read_file_with_path [of p files] by auto
  from c1 c2 c3 show ?thesis by blast
qed

theorem read_file_missing_path_witness:
  "read_file dates_disk None = (Reply 400 (error_json (''Missing '' @ [CHR 0x27] @ ''path'' @ [CHR 0x27] @ '' parameter'')), [])
   \<and> read_file dates_disk (Some []) = (Reply 400 (error_json (''Missing '' @ [CHR 0x27] @ ''path'' @ [CHR 0x27] @ '' parameter'')), [])
   \<and> read_file dates_disk (Some ''dates.txt'') = (Reply 200 (content_json dates_txt), [''dates.txt''])
   \<and> fst (read_file dates_disk (Some ''nope.txt'')) = Reply 404 (error_json ''File not found'')
   \<and> fst (read_file (dates_disk(''dir'' \<mapsto> Broken (OSError ''Is a directory''))) (Some ''dir''))
       = Reply 500 (error_json ''Is a directory'')"
  using read_file_missing_path [of None dates_disk] read_file_missing_path [of "Some []" dates_disk]
    read_file_missing_path [of "Some ''dates.txt''" dates_disk "''dates.txt''"]
  by (simp add: read_file_def open_read_def dates_disk_def dates_txt_def py_repr_def repr_char_def Let_def)

end
